theory Spec2Isabelle
  imports Main "HOL-Library.Sublist" "HOL-Library.AList"
begin

section \<open>Results, exceptions and asynchronous calls\<close>

text \<open>
  The component manager of the mobile client (\<open>src/lib/component_manager.ts\<close>) is a class
  whose methods are \<open>async\<close>: they await calls of the filesystem gateway
  (\<open>react-native-fs\<close>), of the archive extractor and of the crypto service, any of which
  may reject. A method is modelled as a function from the manager's state to a result and
  the state after the call; a rejected promise or a thrown \<open>Error\<close> is the left summand.
\<close>

datatype exn = Error string

datatype ComponentLoadingError =
  FailedDownload | ChecksumMismatch | LocalServerFailure | DoesntExist | Unknown

text \<open>
  The calls of the external collaborators, in the order the manager makes them. The log is
  a ghost field: the source keeps no such list, it is what a test double of the gateway
  would record.
\<close>

datatype call =
  Call_exists string
  | Call_unlink string
  | Call_downloadFile string string
  | Call_readFile string
  | Call_readDir string
  | Call_moveFile string string
  | Call_unzip string string
  | Call_sha256 string

record 'w ComponentManager =
  world :: 'w
  calls :: "call list"
  thirdPartyIndexPaths :: "string \<Rightarrow> string option"
  staticServerUrl :: string

type_synonym ('w, 'a) async = "'w ComponentManager \<Rightarrow> (exn + 'a) \<times> 'w ComponentManager"

definition ret :: "'a \<Rightarrow> ('w, 'a) async" where
  "ret x s = (Inr x, s)"

definition throw :: "exn \<Rightarrow> ('w, 'a) async" where
  "throw e s = (Inl e, s)"

definition await :: "('w, 'a) async \<Rightarrow> ('a \<Rightarrow> ('w, 'b) async) \<Rightarrow> ('w, 'b) async" where
  "await m f s = (case m s of (Inl e, s') \<Rightarrow> (Inl e, s') | (Inr x, s') \<Rightarrow> f x s')"

definition try_catch :: "('w, 'a) async \<Rightarrow> (exn \<Rightarrow> ('w, 'a) async) \<Rightarrow> ('w, 'a) async" where
  "try_catch m h s = (case m s of (Inl e, s') \<Rightarrow> h e s' | (Inr x, s') \<Rightarrow> (Inr x, s'))"

definition invoke :: "call \<Rightarrow> ('w \<Rightarrow> (exn + 'a) \<times> 'w) \<Rightarrow> ('w, 'a) async" where
  "invoke c op s =
     (case op (world s) of (r, w') \<Rightarrow> (r, s\<lparr>world := w', calls := calls s @ [c]\<rparr>))"

section \<open>Data model\<close>

record FeatureDescription =
  fd_identifier :: string
  fd_download_url :: "string option"
  fd_version :: "string option"
  fd_index_path :: "string option"

record ChecksumEntry =
  base64 :: "string option"

record PackageInfo =
  pi_download_url :: "string option"
  pi_version :: "string option"

record SNComponent =
  comp_identifier :: string
  package_info :: "PackageInfo option"
  isTheme :: bool
  isSystemTheme :: bool
  variables :: "(string \<times> string) list"

record PackageJson =
  pj_version :: "string option"
  pj_sn_main :: "string option"

record ReadDirItem =
  name :: string
  path :: string
  isDirectory :: bool

text \<open>
  Everything the class imports: the bundled registries (\<open>Features\<close>, \<open>FeatureChecksums\<close>),
  the documents directory, and the external collaborators as functions on the device's
  state \<open>'w\<close>. \<open>fs_readFile64\<close> is \<open>RNFS.readFile(path, 'base64')\<close>.
\<close>

record 'w env =
  BASE_DOCUMENTS_PATH :: string
  Features :: "FeatureDescription list"
  FeatureChecksums :: "string \<Rightarrow> ChecksumEntry option"
  fs_exists :: "string \<Rightarrow> 'w \<Rightarrow> (exn + bool) \<times> 'w"
  fs_unlink :: "string \<Rightarrow> 'w \<Rightarrow> (exn + unit) \<times> 'w"
  fs_downloadFile :: "string \<Rightarrow> string \<Rightarrow> 'w \<Rightarrow> (exn + int) \<times> 'w"
  fs_readFile :: "string \<Rightarrow> 'w \<Rightarrow> (exn + string) \<times> 'w"
  fs_readFile64 :: "string \<Rightarrow> 'w \<Rightarrow> (exn + string) \<times> 'w"
  fs_readDir :: "string \<Rightarrow> 'w \<Rightarrow> (exn + ReadDirItem list) \<times> 'w"
  fs_moveFile :: "string \<Rightarrow> string \<Rightarrow> 'w \<Rightarrow> (exn + unit) \<times> 'w"
  zip_unzip :: "string \<Rightarrow> string \<Rightarrow> 'w \<Rightarrow> (exn + unit) \<times> 'w"
  crypto_sha256 :: "string \<Rightarrow> 'w \<Rightarrow> (exn + string) \<times> 'w"
  JSON_parse :: "string \<Rightarrow> exn + PackageJson"
  isRightVersionGreaterThanLeft :: "string option \<Rightarrow> string option \<Rightarrow> exn + bool"
  objectToCss :: "(string \<times> string) list \<Rightarrow> string"
  Base64_encodeURI :: "string \<Rightarrow> string"
  super_urlForComponent :: "SNComponent \<Rightarrow> string option"

definition COMPONENTS_PATH :: string where
  "COMPONENTS_PATH = ''/components''"

definition RNFS_exists :: "'w env \<Rightarrow> string \<Rightarrow> ('w, bool) async" where
  "RNFS_exists E p = invoke (Call_exists p) (fs_exists E p)"

definition RNFS_unlink :: "'w env \<Rightarrow> string \<Rightarrow> ('w, unit) async" where
  "RNFS_unlink E p = invoke (Call_unlink p) (fs_unlink E p)"

definition RNFS_downloadFile :: "'w env \<Rightarrow> string \<Rightarrow> string \<Rightarrow> ('w, int) async" where
  "RNFS_downloadFile E fromUrl toFile =
     invoke (Call_downloadFile fromUrl toFile) (fs_downloadFile E fromUrl toFile)"

definition RNFS_readFile :: "'w env \<Rightarrow> string \<Rightarrow> ('w, string) async" where
  "RNFS_readFile E p = invoke (Call_readFile p) (fs_readFile E p)"

definition RNFS_readFile64 :: "'w env \<Rightarrow> string \<Rightarrow> ('w, string) async" where
  "RNFS_readFile64 E p = invoke (Call_readFile p) (fs_readFile64 E p)"

definition RNFS_readDir :: "'w env \<Rightarrow> string \<Rightarrow> ('w, ReadDirItem list) async" where
  "RNFS_readDir E p = invoke (Call_readDir p) (fs_readDir E p)"

definition RNFS_moveFile :: "'w env \<Rightarrow> string \<Rightarrow> string \<Rightarrow> ('w, unit) async" where
  "RNFS_moveFile E src dst = invoke (Call_moveFile src dst) (fs_moveFile E src dst)"

definition unzip :: "'w env \<Rightarrow> string \<Rightarrow> string \<Rightarrow> ('w, unit) async" where
  "unzip E src dst = invoke (Call_unzip src dst) (zip_unzip E src dst)"

definition sha256 :: "'w env \<Rightarrow> string \<Rightarrow> ('w, string) async" where
  "sha256 E text = invoke (Call_sha256 text) (crypto_sha256 E text)"

section \<open>JavaScript values\<close>

text \<open>
  \<open>undefined\<close> is \<open>None\<close>. A string is falsy when it is \<open>undefined\<close> or empty;
  \<open>a || b\<close> is \<open>a\<close> when \<open>a\<close> is truthy and \<open>b\<close> otherwise.
\<close>

fun truthy :: "string option \<Rightarrow> bool" where
  "truthy None = False"
| "truthy (Some s) = (s \<noteq> [])"

definition js_or :: "string option \<Rightarrow> string option \<Rightarrow> string option" where
  "js_or a b = (if truthy a then a else b)"

definition startsWith :: "string \<Rightarrow> string \<Rightarrow> bool" where
  "startsWith s p = (take (length p) s = p)"

text \<open>
  \<open>thirdPartyIndexPaths\<close> is a plain object, created as \<open>{}\<close>: reading a key that is not
  an own property goes on to \<open>Object.prototype\<close>, whose properties are functions (and,
  for \<open>__proto__\<close>, the prototype itself). Writing a string to the key \<open>__proto__\<close> changes
  nothing. A value read from the object is a string that was stored, or such an
  inherited value, which is truthy and is turned into its text when it is put into a
  template.
\<close>

datatype js_value = Str string | Inherited string

definition Object_prototype_properties :: "string list" where
  "Object_prototype_properties =
     [''constructor'', ''hasOwnProperty'', ''isPrototypeOf'', ''propertyIsEnumerable'',
      ''toLocaleString'', ''toString'', ''valueOf'', ''__proto__'', ''__defineGetter__'',
      ''__defineSetter__'', ''__lookupGetter__'', ''__lookupSetter__'']"

definition object_get :: "(string \<Rightarrow> string option) \<Rightarrow> string \<Rightarrow> js_value option" where
  "object_get own key =
     (case own key of
        Some v \<Rightarrow> Some (Str v)
      | None \<Rightarrow> if key \<in> set Object_prototype_properties then Some (Inherited key) else None)"

definition object_set ::
  "(string \<Rightarrow> string option) \<Rightarrow> string \<Rightarrow> string \<Rightarrow> (string \<Rightarrow> string option)" where
  "object_set own key v = (if key = ''__proto__'' then own else own(key \<mapsto> v))"

definition js_string :: "js_value \<Rightarrow> string" where
  "js_string v =
     (case v of
        Str text \<Rightarrow> text
      | Inherited key \<Rightarrow>
          if key = ''__proto__'' then ''[object Object]''
          else ''function '' @ key @ ''() { [native code] }'')"

text \<open>\<open>String(n)\<close> for an integral number: its decimal digits, with a sign.\<close>

definition decimal_digits :: string where
  "decimal_digits = ''0123456789''"

fun index_of :: "char \<Rightarrow> string \<Rightarrow> nat" where
  "index_of c [] = 0"
| "index_of c (x # xs) = (if x = c then 0 else Suc (index_of c xs))"

definition digit_char :: "nat \<Rightarrow> char" where
  "digit_char d = decimal_digits ! d"

function digits :: "nat \<Rightarrow> string" where
  "digits n = (if n < 10 then [digit_char n] else digits (n div 10) @ [digit_char (n mod 10)])"
  by pat_completeness auto
termination
  by (relation "measure (\<lambda>n. n)") auto

declare digits.simps [simp del]

definition String_number :: "int \<Rightarrow> string" where
  "String_number n = (if n < 0 then CHR ''-'' # digits (nat (- n)) else digits (nat n))"

section \<open>The component manager\<close>

definition nativeFeatureForIdentifier :: "'w env \<Rightarrow> string \<Rightarrow> FeatureDescription option" where
  "nativeFeatureForIdentifier E ident = find (\<lambda>feature. fd_identifier feature = ident) (Features E)"

definition isComponentThirdParty :: "'w env \<Rightarrow> string \<Rightarrow> bool" where
  "isComponentThirdParty E ident = (nativeFeatureForIdentifier E ident = None)"

definition pathForComponent :: "'w env \<Rightarrow> string \<Rightarrow> string" where
  "pathForComponent E ident = BASE_DOCUMENTS_PATH E @ COMPONENTS_PATH @ ''/'' @ ident"

definition isComponentDownloadable :: "'w env \<Rightarrow> SNComponent \<Rightarrow> bool" where
  "isComponentDownloadable E component =
     (let ident = comp_identifier component;
          nativeFeature = nativeFeatureForIdentifier E ident;
          downloadUrl = js_or (Option.bind nativeFeature fd_download_url)
                              (Option.bind (package_info component) pi_download_url)
      in truthy downloadUrl)"

text \<open>\<open>passesChecksumValidation\<close>, lines 178 to 204.\<close>

definition passesChecksumValidation :: "'w env \<Rightarrow> string \<Rightarrow> string \<Rightarrow> ('w, bool) async" where
  "passesChecksumValidation E filePath featureIdentifier =
     await (RNFS_readFile64 E filePath) (\<lambda>zipContents.
     await (sha256 E zipContents) (\<lambda>checksum.
       let desiredChecksum = Option.bind (FeatureChecksums E featureIdentifier) base64 in
       if \<not> truthy desiredChecksum then ret False
       else if Some checksum \<noteq> desiredChecksum then ret False
       else ret True))"

text \<open>
  The layout fix of \<open>performDownloadComponent\<close>, lines 257 to 272: when the extracted
  root holds one entry and it is a directory, that directory replaces the root.
\<close>

definition isNestedArchive :: "ReadDirItem list \<Rightarrow> bool" where
  "isNestedArchive directoryContents =
     (case directoryContents of [nestedDir] \<Rightarrow> isDirectory nestedDir | _ \<Rightarrow> False)"

definition normalizeLayout :: "'w env \<Rightarrow> string \<Rightarrow> string \<Rightarrow> ('w, unit) async" where
  "normalizeLayout E ident componentPath =
     await (RNFS_readDir E componentPath) (\<lambda>directoryContents.
       if isNestedArchive directoryContents then
         (let nestedDir = hd directoryContents;
              tmpMovePath = BASE_DOCUMENTS_PATH E @ ''/'' @ ident
          in await (RNFS_moveFile E (path nestedDir) tmpMovePath) (\<lambda>_.
             await (RNFS_unlink E componentPath) (\<lambda>_.
             RNFS_moveFile E tmpMovePath componentPath)))
       else ret ())"

text \<open>
  \<open>performDownloadComponent\<close>, lines 206 to 274. \<open>None\<close> is the \<open>undefined\<close> of success.
  The block \<open>if (requireChecksumVerification) { ... if (!passes) return ... }\<close> is the
  conditional call whose answer is \<open>true\<close> when no verification is required.
\<close>

definition performDownloadComponent ::
  "'w env \<Rightarrow> string \<Rightarrow> string \<Rightarrow> ('w, ComponentLoadingError option) async" where
  "performDownloadComponent E ident downloadUrl =
     (let tmpLocation = BASE_DOCUMENTS_PATH E @ ''/'' @ ident @ ''.zip'' in
      await (RNFS_exists E tmpLocation) (\<lambda>stale.
      await (if stale then RNFS_unlink E tmpLocation else ret ()) (\<lambda>_.
      await (RNFS_downloadFile E downloadUrl tmpLocation) (\<lambda>statusCode.
        if \<not> startsWith (String_number statusCode) ''2'' then ret (Some FailedDownload)
        else
          (let requireChecksumVerification = (nativeFeatureForIdentifier E ident \<noteq> None) in
           await (if requireChecksumVerification
                  then passesChecksumValidation E tmpLocation ident else ret True) (\<lambda>passes.
             if \<not> passes then ret (Some ChecksumMismatch)
             else
               (let componentPath = pathForComponent E ident in
                await (unzip E tmpLocation componentPath) (\<lambda>_.
                await (normalizeLayout E ident componentPath) (\<lambda>_.
                await (RNFS_unlink E tmpLocation) (\<lambda>_.
                ret None))))))))))"

text \<open>
  \<open>downloadComponentOffline\<close>, lines 123 to 156. The \<open>return\<close> of the \<open>catch\<close> block is the
  value \<open>Unknown\<close> of the handler, which the test \<open>if (error)\<close> then returns.
\<close>

definition downloadComponentOffline ::
  "'w env \<Rightarrow> SNComponent \<Rightarrow> ('w, ComponentLoadingError option) async" where
  "downloadComponentOffline E component =
     (let ident = comp_identifier component;
          nativeFeature = nativeFeatureForIdentifier E ident;
          downloadUrl = js_or (Option.bind nativeFeature fd_download_url)
                              (Option.bind (package_info component) pi_download_url)
      in if \<not> truthy downloadUrl
         then throw (Error ''Attempting to download component with no download url'')
         else
           await (try_catch (performDownloadComponent E ident (the downloadUrl))
                    (\<lambda>e. ret (Some Unknown))) (\<lambda>error.
             if error \<noteq> None then ret error
             else
               (let componentPath = pathForComponent E ident in
                await (RNFS_exists E componentPath) (\<lambda>present.
                  if \<not> present then ret (Some DoesntExist) else ret error))))"

text \<open>\<open>getFile\<close>, lines 280 to 291.\<close>

definition getFile :: "'w env \<Rightarrow> string \<Rightarrow> string \<Rightarrow> ('w, string option) async" where
  "getFile E ident relativePath =
     (let componentPath = pathForComponent E ident in
      await (RNFS_exists E componentPath) (\<lambda>dirPresent.
        if \<not> dirPresent then ret None
        else
          (let filePath = componentPath @ ''/'' @ relativePath in
           await (RNFS_exists E filePath) (\<lambda>filePresent.
             if \<not> filePresent then ret None
             else await (RNFS_readFile E filePath) (\<lambda>fileContents. ret (Some fileContents))))))"

text \<open>
  \<open>getDownloadedComponentPackageJsonFile\<close>, lines 301 to 310. \<open>JSON.parse\<close> throws on a
  text that is not JSON; of the parsed manifest the class reads \<open>version\<close> and \<open>sn.main\<close>.
\<close>

definition getDownloadedComponentPackageJsonFile ::
  "'w env \<Rightarrow> string \<Rightarrow> ('w, PackageJson option) async" where
  "getDownloadedComponentPackageJsonFile E ident =
     await (getFile E ident ''package.json'') (\<lambda>file.
       case file of
         None \<Rightarrow> ret None
       | Some contents \<Rightarrow>
           if contents = [] then ret None
           else (case JSON_parse E contents of
                   Inl e \<Rightarrow> throw e
                 | Inr packageJson \<Rightarrow> ret (Some packageJson)))"

text \<open>\<open>preloadThirdPartyIndexPathFromDisk\<close>, lines 168 to 176.\<close>

definition js_or_default :: "string option \<Rightarrow> string \<Rightarrow> string" where
  "js_or_default a b = (case a of None \<Rightarrow> b | Some v \<Rightarrow> if v = [] then b else v)"

definition preloadThirdPartyIndexPathFromDisk :: "'w env \<Rightarrow> string \<Rightarrow> ('w, unit) async" where
  "preloadThirdPartyIndexPathFromDisk E ident =
     await (getDownloadedComponentPackageJsonFile E ident) (\<lambda>packageJson s.
       (Inr (),
        s\<lparr>thirdPartyIndexPaths :=
             object_set (thirdPartyIndexPaths s) ident
               (js_or_default (Option.bind packageJson pj_sn_main) ''index.html'')\<rparr>))"

text \<open>
  \<open>getIndexFileRelativePath\<close>, lines 324 to 331: it reads the cache of the instance, a
  plain object, by the identifier.
\<close>

definition getIndexFileRelativePath :: "'w env \<Rightarrow> string \<Rightarrow> ('w, js_value option) async" where
  "getIndexFileRelativePath E ident s =
     (case nativeFeatureForIdentifier E ident of
        Some nativeFeature \<Rightarrow> (Inr (map_option Str (fd_index_path nativeFeature)), s)
      | None \<Rightarrow> (Inr (object_get (thirdPartyIndexPaths s) ident), s))"

text \<open>\<open>getIndexFile\<close>, lines 293 to 299.\<close>

definition getIndexFile :: "'w env \<Rightarrow> string \<Rightarrow> ('w, string option) async" where
  "getIndexFile E ident =
     await (if isComponentThirdParty E ident
            then preloadThirdPartyIndexPathFromDisk E ident else ret ()) (\<lambda>_.
     await (getIndexFileRelativePath E ident) (\<lambda>relativePath.
       getFile E ident
         (case relativePath of None \<Rightarrow> ''undefined'' | Some v \<Rightarrow> js_string v)))"

text \<open>\<open>String.prototype.split\<close> with a separator string.\<close>

function js_split :: "string \<Rightarrow> string \<Rightarrow> string list" where
  "js_split sep s =
     (if sep = [] then map (\<lambda>c. [c]) s
      else if s = [] then [[]]
      else if prefix sep s then [] # js_split sep (drop (length sep) s)
      else (case js_split sep (tl s) of
              w # ws \<Rightarrow> (hd s # w) # ws
            | [] \<Rightarrow> [[hd s]]))"
  by pat_completeness auto
termination
  by (relation "measure (\<lambda>(sep, s). length s)") auto

declare js_split.simps [simp del]

text \<open>
  \<open>urlForComponent\<close>, lines 334 to 358. The result of the superclass for a component that
  cannot be downloaded is the collaborator \<open>super_urlForComponent\<close>.
\<close>

definition urlForComponent :: "'w env \<Rightarrow> SNComponent \<Rightarrow> ('w, string option) async" where
  "urlForComponent E component =
     (if isTheme component \<and> isSystemTheme component then
        (let cssData = objectToCss E (variables component);
             encoded = Base64_encodeURI E cssData
         in ret (Some (''data:text/css;base64,'' @ encoded)))
      else if \<not> isComponentDownloadable E component then
        ret (super_urlForComponent E component)
      else
        (let ident = comp_identifier component;
             componentPath = pathForComponent E ident
         in await (getIndexFileRelativePath E ident) (\<lambda>indexFilePath.
              case indexFilePath of
                None \<Rightarrow> throw (Error ''Third party index path was not preloaded'')
              | Some indexPath \<Rightarrow>
                  if indexPath = Str []
                  then throw (Error ''Third party index path was not preloaded'')
                  else
                    (let splitPackagePath = js_split COMPONENTS_PATH componentPath;
                         relativePackagePath = last splitPackagePath;
                         relativeMainFilePath =
                           relativePackagePath @ ''/'' @ js_string indexPath
                     in (\<lambda>s. (Inr (Some (staticServerUrl s @ relativeMainFilePath)), s))))))"

section \<open>The version decision\<close>




text \<open>
  Modelled from the spec: a comparator for the reference device, after the sentence of
  the specification on \<open>isRightVersionGreaterThanLeft\<close>: a segment that is missing or not a
  number is the lowest. The theorems do not depend on it; the reference device uses it
  where a comparator is needed.
\<close>

fun split_dots :: "string \<Rightarrow> string list" where
  "split_dots [] = [[]]"
| "split_dots (c # cs) =
     (if c = CHR ''.'' then [] # split_dots cs
      else (case split_dots cs of w # ws \<Rightarrow> (c # w) # ws | [] \<Rightarrow> [[c]]))"

definition digit_value :: "char \<Rightarrow> nat option" where
  "digit_value c =
     (if c \<in> set decimal_digits then Some (index_of c decimal_digits) else None)"

fun parse_digits :: "nat \<Rightarrow> string \<Rightarrow> nat option" where
  "parse_digits acc [] = Some acc"
| "parse_digits acc (c # cs) =
     (case digit_value c of None \<Rightarrow> None | Some d \<Rightarrow> parse_digits (10 * acc + d) cs)"

definition segment_value :: "string list \<Rightarrow> nat \<Rightarrow> nat option" where
  "segment_value parts i =
     (if i < length parts \<and> parts ! i \<noteq> [] then parse_digits 0 (parts ! i) else None)"

text \<open>The lowest segment is \<open>None\<close>; a number \<open>n\<close> ranks as \<open>n + 1\<close>.\<close>

definition segment_rank :: "nat option \<Rightarrow> nat" where
  "segment_rank v = (case v of None \<Rightarrow> 0 | Some n \<Rightarrow> Suc n)"

definition version_ranks :: "string option \<Rightarrow> nat \<times> nat \<times> nat" where
  "version_ranks v =
     (let parts = (case v of None \<Rightarrow> [] | Some text \<Rightarrow> split_dots text)
      in (segment_rank (segment_value parts 0),
          segment_rank (segment_value parts 1),
          segment_rank (segment_value parts 2)))"

definition ranks_right_greater :: "string option \<Rightarrow> string option \<Rightarrow> bool" where
  "ranks_right_greater left right =
     (case (version_ranks left, version_ranks right) of
        ((a1, a2, a3), (b1, b2, b3)) \<Rightarrow>
          a1 < b1 \<or> (a1 = b1 \<and> (a2 < b2 \<or> (a2 = b2 \<and> a3 < b3))))"

section \<open>The action sheet of a note\<close>

text \<open>
  \<open>NoteBottomSheet\<close> builds its sections from the flags of the note. An action is kept
  with its text, key, icon and flags; its callback, which changes the note through the
  application, has no part in what the sheet lists.
\<close>

datatype ActionSection = History | CommonActions | ListedSection

datatype NoteAction =
  Pin | Archive | Lock | Protect | OpenHistory | ShareAction | Trash | Restore
  | DeletePermanently | Listed

datatype IconType = IconPin | IconArchive | IconLock | IconProtect | IconShare | IconTrash
  | IconHistory | IconListed

record SNNote =
  pinned :: bool
  archived :: bool
  locked :: bool
  protected :: bool
  trashed :: bool

record BottomSheetActionType =
  action_text :: string
  action_key :: NoteAction
  iconType :: "IconType option"
  danger :: bool
  dismissSheetOnPress :: bool

record BottomSheetSectionType =
  expandable :: bool
  section_key :: ActionSection
  actions :: "BottomSheetActionType list"

definition protectAction :: "SNNote \<Rightarrow> BottomSheetActionType" where
  "protectAction note =
     \<lparr>action_text = (if protected note then ''Unprotect'' else ''Protect''),
      action_key = Protect, iconType = Some IconProtect, danger = False,
      dismissSheetOnPress = True\<rparr>"

definition pinAction :: "SNNote \<Rightarrow> BottomSheetActionType" where
  "pinAction note =
     \<lparr>action_text = (if pinned note then ''Unpin'' else ''Pin to top''),
      action_key = Pin, iconType = Some IconPin, danger = False,
      dismissSheetOnPress = True\<rparr>"

definition archiveAction :: "SNNote \<Rightarrow> BottomSheetActionType" where
  "archiveAction note =
     \<lparr>action_text = (if archived note then ''Unarchive'' else ''Archive''),
      action_key = Archive, iconType = Some IconArchive, danger = False,
      dismissSheetOnPress = True\<rparr>"

definition lockAction :: "SNNote \<Rightarrow> BottomSheetActionType" where
  "lockAction note =
     \<lparr>action_text = (if locked note then ''Unlock'' else ''Lock''),
      action_key = Lock, iconType = Some IconLock, danger = False,
      dismissSheetOnPress = True\<rparr>"

definition shareAction :: BottomSheetActionType where
  "shareAction =
     \<lparr>action_text = ''Share'', action_key = ShareAction, iconType = Some IconShare,
      danger = False, dismissSheetOnPress = True\<rparr>"

definition restoreAction :: BottomSheetActionType where
  "restoreAction =
     \<lparr>action_text = ''Restore'', action_key = Restore, iconType = None,
      danger = False, dismissSheetOnPress = True\<rparr>"

definition deleteAction :: BottomSheetActionType where
  "deleteAction =
     \<lparr>action_text = ''Delete permanently'', action_key = DeletePermanently, iconType = None,
      danger = True, dismissSheetOnPress = True\<rparr>"

definition moveToTrashAction :: BottomSheetActionType where
  "moveToTrashAction =
     \<lparr>action_text = ''Move to Trash'', action_key = Trash, iconType = Some IconTrash,
      danger = False, dismissSheetOnPress = True\<rparr>"

text \<open>\<open>commonSection\<close>, lines 381 to 402 of the action sheet.\<close>

definition commonSection :: "SNNote \<Rightarrow> BottomSheetSectionType" where
  "commonSection note =
     (let trashActions = (if trashed note then [restoreAction, deleteAction]
                          else [moveToTrashAction]);
          actions = (if protected note then [protectAction note]
                     else [pinAction note, archiveAction note, lockAction note,
                           protectAction note, shareAction] @ trashActions)
      in \<lparr>expandable = False, section_key = CommonActions, actions = actions\<rparr>)"

section \<open>A reference device\<close>

text \<open>
  The theorems on the calls and results of the manager hold for every gateway. Those on
  the contents of the install directory need a filesystem. The reference device keeps a
  tree of named nodes; a path names a node by its segments between slashes. Deleting is
  recursive, as \<open>RNFS.unlink\<close> is. \<open>put_at\<close> creates the directories on the way, as the
  extractor does for its destination.
\<close>

datatype node = File string | Dir "(string \<times> node) list"

fun node_at :: "node \<Rightarrow> string list \<Rightarrow> node option" where
  "node_at n [] = Some n"
| "node_at (File c) (s # p) = None"
| "node_at (Dir es) (s # p) = (case map_of es s of None \<Rightarrow> None | Some c \<Rightarrow> node_at c p)"

fun delete_at :: "string list \<Rightarrow> node \<Rightarrow> node" where
  "delete_at [] n = n"
| "delete_at (s # p) (File c) = File c"
| "delete_at [s] (Dir es) = Dir (AList.delete s es)"
| "delete_at (s # p) (Dir es) =
     (case map_of es s of None \<Rightarrow> Dir es | Some c \<Rightarrow> Dir (AList.update s (delete_at p c) es))"

fun put_at :: "string list \<Rightarrow> node \<Rightarrow> node \<Rightarrow> node" where
  "put_at [] n t = n"
| "put_at (s # p) n (File c) = File c"
| "put_at (s # p) n (Dir es) =
     Dir (AList.update s (put_at p n (case map_of es s of None \<Rightarrow> Dir [] | Some c \<Rightarrow> c)) es)"

fun is_dir :: "node option \<Rightarrow> bool" where
  "is_dir (Some (Dir es)) = True"
| "is_dir _ = False"

text \<open>
  The gateway of the reference device. \<open>unlink\<close> rejects when nothing is at the path;
  \<open>moveFile\<close> rejects when the source is missing, when something is at the destination
  or when the destination has no parent directory; \<open>downloadFile\<close> writes the body it
  received; \<open>unzip\<close> replaces the destination by what the extractor makes of the archive
  and of the directory already there. The transport, the extractor, the digest and the
  other libraries are the \<open>services\<close> of the device.
\<close>

fun split_slash :: "string \<Rightarrow> string list" where
  "split_slash [] = [[]]"
| "split_slash (c # cs) =
     (if c = CHR ''/'' then [] # split_slash cs
      else (case split_slash cs of w # ws \<Rightarrow> (c # w) # ws | [] \<Rightarrow> [[c]]))"

definition segments :: "string \<Rightarrow> string list" where
  "segments p = filter (\<lambda>w. w \<noteq> []) (split_slash p)"

record services =
  remote :: "string \<Rightarrow> exn + int \<times> string"
  unpack :: "string \<Rightarrow> node option \<Rightarrow> exn + (string \<times> node) list"
  to_base64 :: "string \<Rightarrow> string"
  digest :: "string \<Rightarrow> string"
  parse_json :: "string \<Rightarrow> exn + PackageJson"
  compare_versions :: "string option \<Rightarrow> string option \<Rightarrow> exn + bool"
  css_of :: "(string \<times> string) list \<Rightarrow> string"
  encode_uri :: "string \<Rightarrow> string"
  super_url :: "SNComponent \<Rightarrow> string option"

definition dev_exists :: "string \<Rightarrow> node \<Rightarrow> (exn + bool) \<times> node" where
  "dev_exists p t = (Inr (node_at t (segments p) \<noteq> None), t)"

definition dev_unlink :: "string \<Rightarrow> node \<Rightarrow> (exn + unit) \<times> node" where
  "dev_unlink p t =
     (if segments p = [] \<or> node_at t (segments p) = None
      then (Inl (Error ''ENOENT''), t)
      else (Inr (), delete_at (segments p) t))"

definition dev_readFile :: "(string \<Rightarrow> string) \<Rightarrow> string \<Rightarrow> node \<Rightarrow> (exn + string) \<times> node" where
  "dev_readFile enc p t =
     (case node_at t (segments p) of
        Some (File c) \<Rightarrow> (Inr (enc c), t)
      | _ \<Rightarrow> (Inl (Error ''ENOENT''), t))"

definition dev_readDir :: "string \<Rightarrow> node \<Rightarrow> (exn + ReadDirItem list) \<times> node" where
  "dev_readDir p t =
     (case node_at t (segments p) of
        Some (Dir es) \<Rightarrow>
          (Inr (map (\<lambda>(n, c). \<lparr>name = n, path = p @ ''/'' @ n, isDirectory = is_dir (Some c)\<rparr>) es), t)
      | _ \<Rightarrow> (Inl (Error ''ENOTDIR''), t))"

definition dev_moveFile :: "string \<Rightarrow> string \<Rightarrow> node \<Rightarrow> (exn + unit) \<times> node" where
  "dev_moveFile src dst t =
     (let sp = segments src; dp = segments dst in
      case node_at t sp of
        None \<Rightarrow> (Inl (Error ''ENOENT''), t)
      | Some n \<Rightarrow>
          if sp = [] \<or> dp = [] \<or> node_at t dp \<noteq> None
             \<or> \<not> is_dir (node_at (delete_at sp t) (butlast dp))
          then (Inl (Error ''EEXIST''), t)
          else (Inr (), put_at dp n (delete_at sp t)))"

definition dev_downloadFile ::
  "(string \<Rightarrow> exn + int \<times> string) \<Rightarrow> string \<Rightarrow> string \<Rightarrow> node \<Rightarrow> (exn + int) \<times> node" where
  "dev_downloadFile net fromUrl toFile t =
     (case net fromUrl of
        Inl e \<Rightarrow> (Inl e, t)
      | Inr (status, body) \<Rightarrow>
          (let dp = segments toFile in
           if dp = [] \<or> \<not> is_dir (node_at t (butlast dp)) \<or> is_dir (node_at t dp)
           then (Inl (Error ''EIO''), t)
           else (Inr status, put_at dp (File body) t)))"

definition dev_unzip ::
  "(string \<Rightarrow> node option \<Rightarrow> exn + (string \<times> node) list) \<Rightarrow> string \<Rightarrow> string \<Rightarrow> node
     \<Rightarrow> (exn + unit) \<times> node" where
  "dev_unzip unp src dst t =
     (case node_at t (segments src) of
        Some (File bytes) \<Rightarrow>
          (case unp bytes (node_at t (segments dst)) of
             Inl e \<Rightarrow> (Inl e, t)
           | Inr es \<Rightarrow>
               if node_at (put_at (segments dst) (Dir es) t) (segments dst) = Some (Dir es)
               then (Inr (), put_at (segments dst) (Dir es) t)
               else (Inl (Error ''EIO''), t))
      | _ \<Rightarrow> (Inl (Error ''ENOENT''), t))"

definition device_env ::
  "string \<Rightarrow> FeatureDescription list \<Rightarrow> (string \<Rightarrow> ChecksumEntry option) \<Rightarrow> services \<Rightarrow> node env" where
  "device_env base feats sums sv =
     \<lparr>BASE_DOCUMENTS_PATH = base, Features = feats, FeatureChecksums = sums,
      fs_exists = dev_exists, fs_unlink = dev_unlink,
      fs_downloadFile = dev_downloadFile (remote sv),
      fs_readFile = dev_readFile (\<lambda>c. c), fs_readFile64 = dev_readFile (to_base64 sv),
      fs_readDir = dev_readDir, fs_moveFile = dev_moveFile,
      zip_unzip = dev_unzip (unpack sv),
      crypto_sha256 = (\<lambda>text t. (Inr (digest sv text), t)),
      JSON_parse = parse_json sv, isRightVersionGreaterThanLeft = compare_versions sv,
      objectToCss = css_of sv,
      Base64_encodeURI = encode_uri sv, super_urlForComponent = super_url sv\<rparr>"


section \<open>Base64 for URLs\<close>

text \<open>
  A reference implementation of \<open>Base64.encodeURI\<close> on byte strings: the alphabet of
  RFC 4648 section 5, without padding.
\<close>

definition b64_alphabet :: string where
  "b64_alphabet = ''ABCDEFGHIJKLMNOPQRSTUVWXYZabcdefghijklmnopqrstuvwxyz0123456789-_''"

fun sextets :: "nat list \<Rightarrow> nat list" where
  "sextets (a # b # c # r) =
     [a div 4, (a mod 4) * 16 + b div 16, (b mod 16) * 4 + c div 64, c mod 64] @ sextets r"
| "sextets [a, b] = [a div 4, (a mod 4) * 16 + b div 16, (b mod 16) * 4]"
| "sextets [a] = [a div 4, (a mod 4) * 16]"
| "sextets [] = []"

fun octets :: "nat list \<Rightarrow> nat list" where
  "octets (w # x # y # z # r) =
     [w * 4 + x div 16, (x mod 16) * 16 + y div 4, (y mod 4) * 64 + z] @ octets r"
| "octets [w, x, y] = [w * 4 + x div 16, (x mod 16) * 16 + y div 4]"
| "octets [w, x] = [w * 4 + x div 16]"
| "octets _ = []"

definition base64url_encode :: "string \<Rightarrow> string" where
  "base64url_encode s = map (\<lambda>n. b64_alphabet ! n) (sextets (map of_char s))"

definition base64url_decode :: "string \<Rightarrow> string" where
  "base64url_decode p = map char_of (octets (map (\<lambda>c. index_of c b64_alphabet) p))"

section \<open>Sample data\<close>

text \<open>
  The scenario of the specification: the identifier \<open>com.example.editor\<close>, the expected
  checksum \<open>AAA=\<close> and an archive whose digest is \<open>BBB=\<close>. To keep the sample small,
  the text of a sample manifest is its version, and the sample parser reads it so.
\<close>

definition demo_services :: services where
  "demo_services =
     \<lparr>remote = (\<lambda>url. Inr (200, ''archive'')),
      unpack = (\<lambda>bytes old. Inr [(''package.json'', File ''1.3.0''),
                                    (''index.html'', File ''page'')]),
      to_base64 = (\<lambda>c. c),
      digest = (\<lambda>t. ''BBB=''),
      parse_json = (\<lambda>t. Inr \<lparr>pj_version = Some t, pj_sn_main = None\<rparr>),
      compare_versions = (\<lambda>left right. Inr (ranks_right_greater left right)),
      css_of = (\<lambda>vars. concat (map (\<lambda>(k, v). k @ '':'' @ v @ '';'') vars)),
      encode_uri = base64url_encode,
      super_url = (\<lambda>c. None)\<rparr>"

definition demo_feature :: FeatureDescription where
  "demo_feature =
     \<lparr>fd_identifier = ''com.example.editor'',
      fd_download_url = Some ''https://example.com/editor.zip'',
      fd_version = Some ''1.3.0'',
      fd_index_path = Some ''index.html''\<rparr>"

definition demo_checksums :: "string \<Rightarrow> ChecksumEntry option" where
  "demo_checksums i =
     (if i = ''com.example.editor'' then Some \<lparr>base64 = Some ''AAA=''\<rparr> else None)"

definition demo_env :: "node env" where
  "demo_env = device_env ''/docs'' [demo_feature] demo_checksums demo_services"

definition third_party_env :: "node env" where
  "third_party_env = device_env ''/docs'' [] demo_checksums demo_services"

definition demo_component :: SNComponent where
  "demo_component =
     \<lparr>comp_identifier = ''com.example.editor'',
      package_info = Some \<lparr>pi_download_url = Some ''https://example.com/editor.zip'',
                            pi_version = Some ''1.3.0''\<rparr>,
      isTheme = False, isSystemTheme = False, variables = []\<rparr>"

definition demo_manager :: "node \<Rightarrow> node ComponentManager" where
  "demo_manager t =
     \<lparr>world = t, calls = [], thirdPartyIndexPaths = (\<lambda>i. None),
      staticServerUrl = ''http://localhost:8080''\<rparr>"

definition fresh_device :: node where
  "fresh_device = Dir [(''docs'', Dir [])]"

definition not_found_env :: "node env" where
  "not_found_env =
     device_env ''/docs'' [demo_feature] demo_checksums
       (demo_services\<lparr>remote := (\<lambda>url. Inr (404, ''not found''))\<rparr>)"

definition offline_env :: "node env" where
  "offline_env =
     device_env ''/docs'' [demo_feature] demo_checksums
       (demo_services\<lparr>remote := (\<lambda>url. Inl (Error ''network''))\<rparr>)"

definition flaky_env :: "node env" where
  "flaky_env =
     third_party_env\<lparr>fs_exists := (\<lambda>p t.
        if p = ''/docs/components/com.example.editor'' then (Inl (Error ''EIO''), t)
        else dev_exists p t)\<rparr>"




definition bare_install_device :: node where
  "bare_install_device =
     Dir [(''docs'', Dir [(''components'', Dir [(''com.example.editor'', Dir [])])])]"

definition trashed_note :: SNNote where
  "trashed_note =
     \<lparr>pinned = False, archived = False, locked = False, protected = False, trashed = True\<rparr>"




definition demo_theme :: SNComponent where
  "demo_theme =
     \<lparr>comp_identifier = ''org.example.theme'', package_info = None,
      isTheme = True, isSystemTheme = True, variables = [(''--bg'', ''#000'')]\<rparr>"


definition odd_status_env :: "node env" where
  "odd_status_env =
     device_env ''/docs'' [] demo_checksums
       (demo_services\<lparr>remote := (\<lambda>url. Inr (2000, ''archive''))\<rparr>)"


section \<open>Properties of the calls of a method\<close>

text \<open>
  \<open>quiet ok R m\<close>: from every state, the method \<open>m\<close> ends with a result in \<open>R\<close>, and every
  call it adds to the log satisfies \<open>ok\<close>.
\<close>

definition quiet :: "(call \<Rightarrow> bool) \<Rightarrow> ((exn + 'a) \<Rightarrow> bool) \<Rightarrow> ('w, 'a) async \<Rightarrow> bool" where
  "quiet ok R m =
     (\<forall>s. R (fst (m s)) \<and> (\<exists>new. calls (snd (m s)) = calls s @ new \<and> list_all ok new))"

text \<open>The calls of the checksum verification: reading the archive and digesting it.\<close>

fun checksum_call :: "call \<Rightarrow> bool" where
  "checksum_call (Call_sha256 t) = True"
| "checksum_call (Call_readFile p) = True"
| "checksum_call _ = False"

section \<open>Lemmas on the methods\<close>

lemmas monad_defs = await_def try_catch_def ret_def throw_def invoke_def

lemmas rnfs_defs = RNFS_exists_def RNFS_unlink_def RNFS_downloadFile_def RNFS_readFile_def
  RNFS_readFile64_def RNFS_readDir_def RNFS_moveFile_def unzip_def sha256_def

lemma await_ret: "await (ret x) f = f x"
  by (rule ext) (simp add: await_def ret_def)

lemma quiet_ret: "R (Inr x) \<Longrightarrow> quiet ok R (ret x)"
  by (simp add: quiet_def ret_def)

lemma quiet_throw: "R (Inl e) \<Longrightarrow> quiet ok R (throw e)"
  by (simp add: quiet_def throw_def)

lemma quiet_invoke: "ok c \<Longrightarrow> (\<And>r. R r) \<Longrightarrow> quiet ok R (invoke c op)"
  by (simp add: quiet_def invoke_def split: prod.splits)

lemma quiet_await_gen:
  assumes m: "quiet ok P m" and e: "\<And>e. P (Inl e) \<Longrightarrow> R (Inl e)"
    and f: "\<And>x. P (Inr x) \<Longrightarrow> quiet ok R (f x)"
  shows "quiet ok R (await m f)"
  unfolding quiet_def
proof
  fix s
  obtain r s1 where ms: "m s = (r, s1)" by (cases "m s")
  from m obtain n1 where n1: "calls s1 = calls s @ n1" "list_all ok n1" and P: "P r"
    unfolding quiet_def using ms by (metis fst_conv snd_conv)
  show "R (fst (await m f s)) \<and> (\<exists>new. calls (snd (await m f s)) = calls s @ new \<and> list_all ok new)"
  proof (cases r)
    case (Inl ex)
    then show ?thesis using ms n1 e P by (auto simp: await_def)
  next
    case (Inr x)
    from f [of x] P Inr obtain n2 where n2: "calls (snd (f x s1)) = calls s1 @ n2" "list_all ok n2" and R: "R (fst (f x s1))"
      unfolding quiet_def by blast
    have "await m f s = f x s1" using ms Inr by (simp add: await_def)
    then show ?thesis using n1 n2 R by auto
  qed
qed

lemma quiet_await:
  assumes m: "quiet ok (\<lambda>_. True) m" and e: "\<And>e. R (Inl e)" and f: "\<And>x. quiet ok R (f x)"
  shows "quiet ok R (await m f)"
  using m e f by (rule quiet_await_gen)

lemma quiet_try_catch:
  assumes m: "quiet ok R m" and h: "\<And>e. quiet ok R (h e)"
  shows "quiet ok R (try_catch m h)"
  unfolding quiet_def
proof
  fix s
  obtain r s1 where ms: "m s = (r, s1)" by (cases "m s")
  from m obtain n1 where n1: "calls s1 = calls s @ n1" "list_all ok n1" and R1: "R r"
    unfolding quiet_def using ms by (metis fst_conv snd_conv)
  show "R (fst (try_catch m h s)) \<and> (\<exists>new. calls (snd (try_catch m h s)) = calls s @ new \<and> list_all ok new)"
  proof (cases r)
    case (Inr x)
    then show ?thesis using ms n1 R1 by (auto simp: try_catch_def)
  next
    case (Inl ex)
    from h [of ex] obtain n2 where n2: "calls (snd (h ex s1)) = calls s1 @ n2" "list_all ok n2" and R: "R (fst (h ex s1))"
      unfolding quiet_def by blast
    have "try_catch m h s = h ex s1" using ms Inl by (simp add: try_catch_def)
    then show ?thesis using n1 n2 R by auto
  qed
qed

lemma quiet_weaken: "quiet ok R m \<Longrightarrow> (\<And>r. R r \<Longrightarrow> R' r) \<Longrightarrow> quiet ok R' m"
  by (simp add: quiet_def)

lemma quiet_normalizeLayout: "quiet (\<lambda>c. \<not> checksum_call c) (\<lambda>_. True) (normalizeLayout E i p)"
  unfolding normalizeLayout_def Let_def rnfs_defs
  by (intro quiet_await quiet_invoke quiet_ret) (auto intro!: quiet_await quiet_invoke quiet_ret)

lemma quiet_perform:
  assumes "nativeFeatureForIdentifier E i = None"
  shows "quiet (\<lambda>c. \<not> checksum_call c) (\<lambda>r. r \<noteq> Inr (Some ChecksumMismatch)) (performDownloadComponent E i u)"
proof -
  show ?thesis
  unfolding performDownloadComponent_def Let_def 
  apply (simp add: await_ret assms cong: if_cong)
  apply (auto intro!: quiet_await quiet_invoke quiet_ret quiet_normalizeLayout simp: rnfs_defs)
    done
qed

lemma quiet_download:
  assumes "nativeFeatureForIdentifier E (comp_identifier c) = None"
  shows "quiet (\<lambda>c. \<not> checksum_call c) (\<lambda>r. r \<noteq> Inr (Some ChecksumMismatch)) (downloadComponentOffline E c)"
  unfolding downloadComponentOffline_def Let_def
  apply (auto intro!: quiet_throw)
  apply (rule quiet_await_gen [where P = "\<lambda>r. r \<noteq> Inr (Some ChecksumMismatch)"])
  apply (auto intro!: quiet_await quiet_invoke quiet_ret quiet_throw quiet_try_catch quiet_perform assms simp: RNFS_exists_def)
  done


lemma digit_char_two: "d < 10 \<Longrightarrow> (digit_char d = CHR ''2'') = (d = 2)"
proof -
  assume "d < 10"
  then have "d \<in> {0, 1, 2, 3, 4, 5, 6, 7, 8, 9}" by auto
  then show ?thesis
    by (auto simp: digit_char_def decimal_digits_def)
qed

lemma digits_three:
  assumes "100 \<le> m" "m \<le> 999"
  shows "digits m = [digit_char (m div 100), digit_char (m div 10 mod 10), digit_char (m mod 10)]"
proof -
  have a: "\<not> m < 10" using assms by simp
  have b: "\<not> m div 10 < 10" using assms by simp
  have c: "m div 10 div 10 < 10" using assms by simp
  have d: "m div 10 div 10 = m div 100" by (simp add: div_mult2_eq)
  show ?thesis
    using a b c d
    by (simp add: digits.simps [of m] digits.simps [of "m div 10"] digits.simps [of "m div 100"])
qed

lemma status_starts_with_2:
  assumes "100 \<le> n" "n \<le> 999"
  shows "startsWith (String_number n) ''2'' = (200 \<le> n \<and> n \<le> 299)"
proof -
  define m where "m = nat n"
  have m: "100 \<le> m" "m \<le> 999" using assms by (simp_all add: m_def)
  have lt: "m div 100 < 10" using m by simp
  have "String_number n = digits m" using assms by (simp add: String_number_def m_def)
  then have "startsWith (String_number n) ''2'' = (digit_char (m div 100) = CHR ''2'')"
    by (simp add: digits_three [OF m] startsWith_def)
  also have "\<dots> = (m div 100 = 2)" by (rule digit_char_two [OF lt])
  also have "\<dots> = (200 \<le> m \<and> m \<le> 299)" by auto
  also have "\<dots> = (200 \<le> n \<and> n \<le> 299)" using assms by (auto simp: m_def)
  finally show ?thesis .
qed

lemma getFile_no_directory:
  assumes "fs_exists E (pathForComponent E ident) (world s) = (Inr False, w1)"
  shows "getFile E ident relativePath s =
           (Inr None, s\<lparr>world := w1, calls := calls s @ [Call_exists (pathForComponent E ident)]\<rparr>)"
  using assms by (simp add: getFile_def Let_def monad_defs RNFS_exists_def)

lemma getFile_no_file:
  assumes "fs_exists E (pathForComponent E ident) (world s) = (Inr True, w1)"
    and "fs_exists E (pathForComponent E ident @ ''/'' @ relativePath) w1 = (Inr False, w2)"
  shows "getFile E ident relativePath s =
           (Inr None, s\<lparr>world := w2,
              calls := calls s @ [Call_exists (pathForComponent E ident),
                Call_exists (pathForComponent E ident @ ''/'' @ relativePath)]\<rparr>)"
  using assms by (simp add: getFile_def Let_def monad_defs RNFS_exists_def)

lemma manifest_of_no_file:
  assumes "getFile E ident ''package.json'' s = (Inr None, s')"
  shows "getDownloadedComponentPackageJsonFile E ident s = (Inr None, s')"
  using assms by (simp add: getDownloadedComponentPackageJsonFile_def monad_defs)

subsection \<open>The tree of the reference device\<close>





















lemma device_env_simps [simp]:
  "BASE_DOCUMENTS_PATH (device_env base feats sums sv) = base"
  "Features (device_env base feats sums sv) = feats"
  "FeatureChecksums (device_env base feats sums sv) = sums"
  "fs_exists (device_env base feats sums sv) = dev_exists"
  "fs_unlink (device_env base feats sums sv) = dev_unlink"
  "fs_downloadFile (device_env base feats sums sv) = dev_downloadFile (remote sv)"
  "fs_readFile (device_env base feats sums sv) = dev_readFile (\<lambda>c. c)"
  "fs_readFile64 (device_env base feats sums sv) = dev_readFile (to_base64 sv)"
  "fs_readDir (device_env base feats sums sv) = dev_readDir"
  "fs_moveFile (device_env base feats sums sv) = dev_moveFile"
  "zip_unzip (device_env base feats sums sv) = dev_unzip (unpack sv)"
  "crypto_sha256 (device_env base feats sums sv) = (\<lambda>text t. (Inr (digest sv text), t))"
  "JSON_parse (device_env base feats sums sv) = parse_json sv"
  "isRightVersionGreaterThanLeft (device_env base feats sums sv) = compare_versions sv"
  "objectToCss (device_env base feats sums sv) = css_of sv"
  "Base64_encodeURI (device_env base feats sums sv) = encode_uri sv"
  "super_urlForComponent (device_env base feats sums sv) = super_url sv"
  by (simp_all add: device_env_def)




subsection \<open>Decoding what was encoded\<close>

lemma b64_s1: "b < 256 \<Longrightarrow> a div 4 * 4 + (a mod 4 * 16 + b div 16) div 16 = (a::nat)"
proof -
  assume "b < 256"
  then have "b div 16 < 16" by simp
  then have "(a mod 4 * 16 + b div 16) div 16 = a mod 4" by simp
  then show ?thesis by simp
qed

lemma b64_s2: "b < 256 \<Longrightarrow> c < 256 \<Longrightarrow>
   (a mod 4 * 16 + b div 16) mod 16 * 16 + (b mod 16 * 4 + c div 64) div 4 = (b::nat)"
proof -
  assume "b < 256" "c < 256"
  then have b: "b div 16 < 16" and c: "c div 64 < 4" by simp_all
  have 1: "b div 16 mod 16 = b div 16" using b by simp
  have 2: "(b mod 16 * 4 + c div 64) div 4 = b mod 16" using c by simp
  show ?thesis by (simp add: 1 2)
qed

lemma b64_s3: "c < 256 \<Longrightarrow> (b mod 16 * 4 + c div 64) mod 4 * 64 + c mod 64 = (c::nat)"
proof -
  assume "c < 256"
  then have c: "c div 64 < 4" by simp
  have 1: "c div 64 mod 4 = c div 64" using c by simp
  show ?thesis by (simp add: 1)
qed

lemma b64_s4: "b < 256 \<Longrightarrow> (a mod 4 * 16 + b div 16) mod 16 * 16 + (b mod 16 * 4) div 4 = (b::nat)"
proof -
  assume "b < 256"
  then have b: "b div 16 < 16" by simp
  have 1: "b div 16 mod 16 = b div 16" using b by simp
  show ?thesis by (simp add: 1)
qed

lemma b64_s5: "a div 4 * 4 + (a mod 4 * 16) div 16 = (a::nat)"
  by simp

lemma b64_b1: "a < 256 \<Longrightarrow> a div 4 < (64::nat)" by simp
lemma b64_b2: "b < 256 \<Longrightarrow> a mod 4 * 16 + b div 16 < (64::nat)"
proof -
  assume "b < 256"
  then have "b div 16 < 16" by simp
  moreover have "a mod 4 < 4" by simp
  ultimately show ?thesis by linarith
qed
lemma b64_b3: "c < 256 \<Longrightarrow> b mod 16 * 4 + c div 64 < (64::nat)"
proof -
  assume "c < 256"
  then have "c div 64 < 4" by simp
  moreover have "b mod 16 < 16" by simp
  ultimately show ?thesis by linarith
qed
lemma b64_b4: "a mod 4 * 16 < (64::nat)"
proof -
  have "a mod 4 < 4" by simp
  then show ?thesis by linarith
qed
lemma b64_b5: "b mod 16 * 4 < (64::nat)"
proof -
  have "b mod 16 < 16" by simp
  then show ?thesis by linarith
qed


lemma index_of_nth: "distinct xs \<Longrightarrow> n < length xs \<Longrightarrow> index_of (xs ! n) xs = n"
proof (induction xs arbitrary: n)
  case Nil
  then show ?case by simp
next
  case (Cons x xs)
  show ?case
  proof (cases n)
    case 0
    then show ?thesis by simp
  next
    case (Suc m)
    with Cons.prems have "xs ! m \<in> set xs" by simp
    with Cons.prems have "x \<noteq> xs ! m" by auto
    with Suc Cons show ?thesis by simp
  qed
qed

lemma b64_alphabet_distinct: "distinct b64_alphabet"
  by code_simp

lemma b64_alphabet_length: "length b64_alphabet = 64"
  by (simp add: b64_alphabet_def)

lemma octets_sextets: "list_all (\<lambda>b. b < 256) bs \<Longrightarrow> octets (sextets bs) = bs"
proof (induction bs rule: sextets.induct)
  case (1 a b c r)
  then have r: "octets (sextets r) = r" and lt: "a < 256" "b < 256" "c < 256" by simp_all
  have "octets (sextets (a # b # c # r)) =
      [a div 4 * 4 + (a mod 4 * 16 + b div 16) div 16,
       (a mod 4 * 16 + b div 16) mod 16 * 16 + (b mod 16 * 4 + c div 64) div 4,
       (b mod 16 * 4 + c div 64) mod 4 * 64 + c mod 64] @ octets (sextets r)"
    by (simp only: sextets.simps octets.simps append_Cons append_Nil)
  also have "\<dots> = [a, b, c] @ r"
    by (simp only: r b64_s1 [OF lt(2)] b64_s2 [OF lt(2) lt(3)] b64_s3 [OF lt(3)])
  finally show ?case by simp
next
  case (2 a b)
  then have lt: "a < 256" "b < 256" by simp_all
  have "octets (sextets [a, b]) =
      [a div 4 * 4 + (a mod 4 * 16 + b div 16) div 16,
       (a mod 4 * 16 + b div 16) mod 16 * 16 + (b mod 16 * 4) div 4]"
    by (simp only: sextets.simps octets.simps)
  also have "\<dots> = [a, b]"
    by (simp only: b64_s1 [OF lt(2)] b64_s4 [OF lt(2)])
  finally show ?case .
next
  case (3 a)
  have "octets (sextets [a]) = [a div 4 * 4 + (a mod 4 * 16) div 16]"
    by (simp only: sextets.simps octets.simps)
  also have "\<dots> = [a]" by (simp only: b64_s5)
  finally show ?case .
next
  case 4
  show ?case by simp
qed

lemma sextets_small: "list_all (\<lambda>b. b < 256) bs \<Longrightarrow> list_all (\<lambda>n. n < 64) (sextets bs)"
proof (induction bs rule: sextets.induct)
  case (1 a b c r)
  then have "list_all (\<lambda>n. n < 64) (sextets r)" and lt: "a < 256" "b < 256" "c < 256" by simp_all
  then show ?case
    by (simp only: sextets.simps list_all_append list.pred_inject b64_b1 b64_b2 b64_b3 simp_thms)
next
  case (2 a b)
  then have lt: "a < 256" "b < 256" by simp_all
  then show ?case
    by (simp only: sextets.simps list.pred_inject b64_b1 b64_b2 b64_b5 simp_thms)
next
  case (3 a)
  then have lt: "a < 256" by simp
  then show ?case
    by (simp only: sextets.simps list.pred_inject b64_b1 b64_b4 simp_thms)
next
  case 4
  show ?case by simp
qed

lemma index_of_alphabet:
  "list_all (\<lambda>n. n < 64) ns \<Longrightarrow>
     map (\<lambda>c. index_of c b64_alphabet) (map (\<lambda>n. b64_alphabet ! n) ns) = ns"
  by (induction ns) (simp_all add: index_of_nth b64_alphabet_distinct b64_alphabet_length)

lemma bytes_small: "list_all (\<lambda>b. b < 256) (map (of_char :: char \<Rightarrow> nat) s)"
  by (induction s) simp_all

lemma base64url_roundtrip: "base64url_decode (base64url_encode s) = s"
proof -
  have small: "list_all (\<lambda>n. n < 64) (sextets (map of_char s))"
    by (rule sextets_small) (rule bytes_small)
  have "map (\<lambda>c. index_of c b64_alphabet)
          (map (\<lambda>n. b64_alphabet ! n) (sextets (map of_char s))) = sextets (map of_char s)"
    using small by (rule index_of_alphabet)
  then have "base64url_decode (base64url_encode s) = map char_of (octets (sextets (map of_char s)))"
    by (simp only: base64url_decode_def base64url_encode_def)
  also have "\<dots> = map char_of (map (of_char :: char \<Rightarrow> nat) s)"
    by (simp only: octets_sextets [OF bytes_small])
  also have "\<dots> = s" by (simp add: comp_def)
  finally show ?thesis .
qed

lemma status_below_2: "n < 2 \<Longrightarrow> \<not> startsWith (String_number n) ''2''"
proof (cases "n < 0")
  case True
  then show ?thesis by (simp add: String_number_def startsWith_def)
next
  case False
  assume "n < 2"
  with False have "n = 0 \<or> n = 1" by auto
  then show ?thesis
    by (auto simp: String_number_def startsWith_def digits.simps [of 0] digits.simps [of 1]
        digits.simps [of "Suc 0"] digit_char_def decimal_digits_def)
qed

subsection \<open>The comparator of the reference device\<close>















subsection \<open>The version decision\<close>





subsection \<open>A layout fix that completes\<close>









section \<open>Third-party components skip the checksum\<close>

text \<open>
  Claim C2. For every identifier that is absent from the registry of feature descriptors,
  \<open>downloadComponentOffline\<close> never returns \<open>ChecksumMismatch\<close> and never makes a call of
  the checksum verification (it neither reads the archive back nor digests it), whatever
  the gateway answers: the environment \<open>E\<close> and the state \<open>s\<close> are arbitrary.
\<close>

theorem third_party_never_checksum:
  assumes "nativeFeatureForIdentifier E (comp_identifier component) = None"
  shows "fst (downloadComponentOffline E component s) \<noteq> Inr (Some ChecksumMismatch)
         \<and> (\<exists>new. calls (snd (downloadComponentOffline E component s)) = calls s @ new
                   \<and> list_all (\<lambda>c. \<not> checksum_call c) new)"
  using quiet_download [OF assms] unfolding quiet_def by blast

theorem third_party_never_checksum_witness:
  "nativeFeatureForIdentifier third_party_env (comp_identifier demo_component) = None
   \<and> fst (downloadComponentOffline third_party_env demo_component (demo_manager fresh_device))
       \<noteq> Inr (Some ChecksumMismatch)
   \<and> (\<exists>new. calls (snd (downloadComponentOffline third_party_env demo_component
                           (demo_manager fresh_device)))
               = calls (demo_manager fresh_device) @ new
             \<and> list_all (\<lambda>c. \<not> checksum_call c) new)"
proof -
  have h: "nativeFeatureForIdentifier third_party_env (comp_identifier demo_component) = None"
    by code_simp
  from third_party_never_checksum [OF h, of "demo_manager fresh_device"] h
  show ?thesis by blast
qed

section \<open>A registry component whose archive has the wrong checksum\<close>

text \<open>
  Claim C1, as it is written, quantifies over the identifiers of the checksum registry
  (\<open>FeatureChecksums\<close>). The code decides on the registry of feature descriptors instead:
  \<open>requireChecksumVerification\<close> is \<open>!!nativeFeatureForIdentifier(identifier)\<close>. For
  an identifier that has an expected checksum \<open>AAA=\<close> and no feature descriptor, an archive
  with the digest \<open>BBB=\<close> is downloaded, extracted and installed, and the result is success.
\<close>

theorem checksum_registry_alone_unchecked:
  "FeatureChecksums third_party_env (comp_identifier demo_component)
     = Some \<lparr>base64 = Some ''AAA=''\<rparr>
   \<and> nativeFeatureForIdentifier third_party_env (comp_identifier demo_component) = None
   \<and> fs_downloadFile third_party_env ''https://example.com/editor.zip''
         ''/docs/com.example.editor.zip'' fresh_device
       = (Inr 200, Dir [(''docs'', Dir [(''com.example.editor.zip'', File ''archive'')])])
   \<and> crypto_sha256 third_party_env ''archive'' fresh_device = (Inr ''BBB='', fresh_device)
   \<and> fst (downloadComponentOffline third_party_env demo_component (demo_manager fresh_device))
       = Inr None
   \<and> calls (snd (downloadComponentOffline third_party_env demo_component
                     (demo_manager fresh_device)))
       = [Call_exists ''/docs/com.example.editor.zip'',
          Call_downloadFile ''https://example.com/editor.zip'' ''/docs/com.example.editor.zip'',
          Call_unzip ''/docs/com.example.editor.zip'' ''/docs/components/com.example.editor'',
          Call_readDir ''/docs/components/com.example.editor'',
          Call_unlink ''/docs/com.example.editor.zip'',
          Call_exists ''/docs/components/com.example.editor'']
   \<and> node_at (world (snd (downloadComponentOffline third_party_env demo_component
                              (demo_manager fresh_device))))
         [''docs'', ''components'', ''com.example.editor'']
       = Some (Dir [(''package.json'', File ''1.3.0''), (''index.html'', File ''page'')])"
  by code_simp

text \<open>
  Claim C1, amended. For every identifier that has a feature descriptor: when the download
  is answered with a status from 200 to 299 and the digest of the archive differs from
  the expected checksum of the checksum registry, or no expected checksum is there,
  \<open>downloadComponentOffline\<close> returns \<open>ChecksumMismatch\<close>. Its calls end with the digest:
  nothing is extracted or moved, and the device is as the download and the reading of
  the archive left it.
\<close>

theorem registry_checksum_mismatch:
  assumes native: "nativeFeatureForIdentifier E (comp_identifier component) = Some nativeFeature"
    and url: "js_or (Option.bind (nativeFeatureForIdentifier E (comp_identifier component)) fd_download_url)
                  (Option.bind (package_info component) pi_download_url) = Some downloadUrl"
      "downloadUrl \<noteq> []"
    and tmp: "tmpLocation = BASE_DOCUMENTS_PATH E @ ''/'' @ comp_identifier component @ ''.zip''"
    and ex: "fs_exists E tmpLocation (world s) = (Inr stale, w1)"
    and ul: "if stale then fs_unlink E tmpLocation w1 = (Inr (), w2) else w2 = w1"
    and dl: "fs_downloadFile E downloadUrl tmpLocation w2 = (Inr statusCode, w3)"
    and st: "200 \<le> statusCode" "statusCode \<le> 299"
    and rd: "fs_readFile64 E tmpLocation w3 = (Inr zipContents, w4)"
    and sh: "crypto_sha256 E zipContents w4 = (Inr checksum, w5)"
    and desired: "desiredChecksum = Option.bind (FeatureChecksums E (comp_identifier component)) base64"
    and differs: "\<not> truthy desiredChecksum \<or> desiredChecksum \<noteq> Some checksum"
  shows "downloadComponentOffline E component s =
           (Inr (Some ChecksumMismatch),
            s\<lparr>world := w5,
               calls := calls s @ Call_exists tmpLocation
                 # (if stale then [Call_unlink tmpLocation] else [])
                 @ [Call_downloadFile downloadUrl tmpLocation, Call_readFile tmpLocation,
                    Call_sha256 zipContents]\<rparr>)"
proof -
  have is2: "startsWith (String_number statusCode) ''2''"
    using st by (simp add: status_starts_with_2)
  have fails: "passesChecksumValidation E tmpLocation (comp_identifier component)
                 (s\<lparr>world := w3, calls := cs\<rparr>)
               = (Inr False, s\<lparr>world := w5,
                    calls := cs @ [Call_readFile tmpLocation, Call_sha256 zipContents]\<rparr>)" for cs
    using rd sh differs unfolding desired
    by (auto simp: passesChecksumValidation_def Let_def monad_defs rnfs_defs)
  have perform: "performDownloadComponent E (comp_identifier component) downloadUrl s =
           (Inr (Some ChecksumMismatch),
            s\<lparr>world := w5,
               calls := calls s @ Call_exists tmpLocation
                 # (if stale then [Call_unlink tmpLocation] else [])
                 @ [Call_downloadFile downloadUrl tmpLocation, Call_readFile tmpLocation,
                    Call_sha256 zipContents]\<rparr>)"
  proof (cases stale)
    case True
    with ul have "fs_unlink E tmpLocation w1 = (Inr (), w2)" by simp
    with True ex dl is2 native fails [unfolded tmp] show ?thesis
      unfolding tmp
      by (simp add: performDownloadComponent_def Let_def await_def ret_def invoke_def
          RNFS_exists_def RNFS_unlink_def RNFS_downloadFile_def)
  next
    case False
    with ul have "w2 = w1" by simp
    with False ex dl is2 native fails [unfolded tmp] show ?thesis
      unfolding tmp
      by (simp add: performDownloadComponent_def Let_def await_def ret_def invoke_def
          RNFS_exists_def RNFS_unlink_def RNFS_downloadFile_def)
  qed
  show ?thesis
    using url perform
    by (simp add: downloadComponentOffline_def Let_def monad_defs)
qed


theorem registry_checksum_mismatch_witness:
  "nativeFeatureForIdentifier demo_env (comp_identifier demo_component) = Some demo_feature
   \<and> Option.bind (FeatureChecksums demo_env (comp_identifier demo_component)) base64 = Some ''AAA=''
   \<and> crypto_sha256 demo_env ''archive''
         (Dir [(''docs'', Dir [(''com.example.editor.zip'', File ''archive'')])])
       = (Inr ''BBB='', Dir [(''docs'', Dir [(''com.example.editor.zip'', File ''archive'')])])
   \<and> downloadComponentOffline demo_env demo_component (demo_manager fresh_device) =
       (Inr (Some ChecksumMismatch),
        (demo_manager fresh_device)
          \<lparr>world := Dir [(''docs'', Dir [(''com.example.editor.zip'', File ''archive'')])],
           calls := calls (demo_manager fresh_device)
             @ Call_exists ''/docs/com.example.editor.zip''
             # (if False then [Call_unlink ''/docs/com.example.editor.zip''] else [])
             @ [Call_downloadFile ''https://example.com/editor.zip''
                  ''/docs/com.example.editor.zip'',
                Call_readFile ''/docs/com.example.editor.zip'',
                Call_sha256 ''archive'']\<rparr>)"
proof -
  define w where "w = Dir [(''docs'', Dir [(''com.example.editor.zip'', File ''archive'')])]"
  have native: "nativeFeatureForIdentifier demo_env (comp_identifier demo_component)
                  = Some demo_feature"
    by code_simp
  have url: "js_or (Option.bind (nativeFeatureForIdentifier demo_env
                 (comp_identifier demo_component)) fd_download_url)
               (Option.bind (package_info demo_component) pi_download_url)
             = Some ''https://example.com/editor.zip''"
    by code_simp
  have ne: "''https://example.com/editor.zip'' \<noteq> []" by simp
  have tmp: "''/docs/com.example.editor.zip''
      = BASE_DOCUMENTS_PATH demo_env @ ''/'' @ comp_identifier demo_component @ ''.zip''"
    by code_simp
  have ex: "fs_exists demo_env ''/docs/com.example.editor.zip''
       (world (demo_manager fresh_device)) = (Inr False, fresh_device)"
    by code_simp
  have ul: "if False then fs_unlink demo_env ''/docs/com.example.editor.zip'' fresh_device
              = (Inr (), fresh_device) else fresh_device = fresh_device"
    by simp
  have dl: "fs_downloadFile demo_env ''https://example.com/editor.zip''
       ''/docs/com.example.editor.zip'' fresh_device = (Inr 200, w)"
    unfolding w_def by code_simp
  have st: "(200::int) \<le> 200" "(200::int) \<le> 299" by simp_all
  have rd: "fs_readFile64 demo_env ''/docs/com.example.editor.zip'' w = (Inr ''archive'', w)"
    unfolding w_def by code_simp
  have sh: "crypto_sha256 demo_env ''archive'' w = (Inr ''BBB='', w)"
    unfolding w_def by code_simp
  have desired: "Some ''AAA='' =
      Option.bind (FeatureChecksums demo_env (comp_identifier demo_component)) base64"
    by code_simp
  have differs: "\<not> truthy (Some ''AAA='') \<or> Some ''AAA='' \<noteq> Some ''BBB=''"
    by simp
  from registry_checksum_mismatch [OF native url ne tmp ex ul dl st rd sh desired differs]
    native desired sh
  show ?thesis unfolding w_def by simp
qed

section \<open>Exceptions of the download\<close>

text \<open>
  Claim C3, as it is written, has every exception of the whole sequence caught. The
  \<open>try\<close> block of \<open>downloadComponentOffline\<close> encloses the call of
  \<open>performDownloadComponent\<close> and nothing else: the existence test of the install
  directory that follows it stands outside. On a gateway whose \<open>exists\<close> rejects for the
  install directory, a component with a download URL is downloaded and extracted, and
  the rejection of the last test leaves \<open>downloadComponentOffline\<close> as it was raised.
\<close>

theorem post_check_exception_propagates:
  "js_or (Option.bind (nativeFeatureForIdentifier flaky_env (comp_identifier demo_component))
            fd_download_url)
         (Option.bind (package_info demo_component) pi_download_url)
     = Some ''https://example.com/editor.zip''
   \<and> fst (performDownloadComponent flaky_env (comp_identifier demo_component)
            ''https://example.com/editor.zip'' (demo_manager fresh_device)) = Inr None
   \<and> fst (fs_exists flaky_env (pathForComponent flaky_env (comp_identifier demo_component))
            fresh_device) = Inl (Error ''EIO'')
   \<and> fst (downloadComponentOffline flaky_env demo_component (demo_manager fresh_device))
       = Inl (Error ''EIO'')"
  by code_simp


text \<open>
  Claim C3, amended. For every component with a download URL, every exception raised
  inside \<open>performDownloadComponent\<close> (the removal of a stale archive, the download, the
  checksum verification, the extraction, the layout fix, the removal of the archive) is
  answered with \<open>Unknown\<close>; and where the existence test of the install directory does
  not reject, \<open>downloadComponentOffline\<close> returns a value, never an exception.
\<close>

theorem pipeline_exceptions_are_Unknown:
  assumes url: "js_or (Option.bind (nativeFeatureForIdentifier E (comp_identifier component)) fd_download_url)
                  (Option.bind (package_info component) pi_download_url) = Some downloadUrl"
      "downloadUrl \<noteq> []"
  shows "(\<forall>e. fst (performDownloadComponent E (comp_identifier component) downloadUrl s) = Inl e
              \<longrightarrow> fst (downloadComponentOffline E component s) = Inr (Some Unknown))
         \<and> ((\<forall>w. \<exists>present.
                 fst (fs_exists E (pathForComponent E (comp_identifier component)) w) = Inr present)
              \<longrightarrow> (\<exists>outcome. fst (downloadComponentOffline E component s) = Inr outcome))"
proof (intro conjI allI impI)
  fix e
  assume "fst (performDownloadComponent E (comp_identifier component) downloadUrl s) = Inl e"
  then obtain s1 where "performDownloadComponent E (comp_identifier component) downloadUrl s = (Inl e, s1)"
    by (cases "performDownloadComponent E (comp_identifier component) downloadUrl s") auto
  with url show "fst (downloadComponentOffline E component s) = Inr (Some Unknown)"
    by (simp add: downloadComponentOffline_def Let_def monad_defs)
next
  assume total: "\<forall>w. \<exists>present.
      fst (fs_exists E (pathForComponent E (comp_identifier component)) w) = Inr present"
  obtain r s1 where p: "performDownloadComponent E (comp_identifier component) downloadUrl s = (r, s1)"
    by (cases "performDownloadComponent E (comp_identifier component) downloadUrl s")
  from total obtain present w' where
    ex: "fs_exists E (pathForComponent E (comp_identifier component)) (world s1) = (Inr present, w')"
    by (metis fst_conv surj_pair)
  show "\<exists>outcome. fst (downloadComponentOffline E component s) = Inr outcome"
  proof (cases r)
    case (Inl e)
    with url p show ?thesis by (simp add: downloadComponentOffline_def Let_def monad_defs)
  next
    case (Inr error)
    with url p ex show ?thesis
      by (cases error) (simp_all add: downloadComponentOffline_def Let_def monad_defs RNFS_exists_def)
  qed
qed

theorem pipeline_exceptions_are_Unknown_witness:
  "fst (performDownloadComponent offline_env (comp_identifier demo_component)
          ''https://example.com/editor.zip'' (demo_manager fresh_device)) = Inl (Error ''network'')
   \<and> fst (downloadComponentOffline offline_env demo_component (demo_manager fresh_device))
       = Inr (Some Unknown)
   \<and> (\<exists>outcome. fst (downloadComponentOffline offline_env demo_component
                        (demo_manager fresh_device)) = Inr outcome)"
proof -
  have url: "js_or (Option.bind (nativeFeatureForIdentifier offline_env
                 (comp_identifier demo_component)) fd_download_url)
               (Option.bind (package_info demo_component) pi_download_url)
             = Some ''https://example.com/editor.zip''"
    by code_simp
  have ne: "''https://example.com/editor.zip'' \<noteq> []" by simp
  have raised: "fst (performDownloadComponent offline_env (comp_identifier demo_component)
          ''https://example.com/editor.zip'' (demo_manager fresh_device)) = Inl (Error ''network'')"
    by code_simp
  have total: "\<forall>w. \<exists>present. fst (fs_exists offline_env
      (pathForComponent offline_env (comp_identifier demo_component)) w) = Inr present"
    by (simp add: offline_env_def device_env_def dev_exists_def)
  from pipeline_exceptions_are_Unknown [OF url ne, of "demo_manager fresh_device"] raised total
  show ?thesis by blast
qed

section \<open>Files that are not there\<close>

text \<open>
  Claim C10. When the gateway reports that the install directory of the component does
  not exist, or that the requested file does not exist in it, \<open>getFile\<close> returns
  \<open>undefined\<close> and raises nothing; so does \<open>getDownloadedComponentPackageJsonFile\<close> when
  the component is not installed or has no \<open>package.json\<close>. This holds for every
  gateway; on the reference device the existence test never rejects.
\<close>

theorem getFile_undefined_when_missing:
  "(fs_exists E (pathForComponent E ident) (world s) = (Inr False, w1) \<longrightarrow>
      getFile E ident relativePath s =
        (Inr None, s\<lparr>world := w1, calls := calls s @ [Call_exists (pathForComponent E ident)]\<rparr>)
      \<and> getDownloadedComponentPackageJsonFile E ident s =
        (Inr None, s\<lparr>world := w1, calls := calls s @ [Call_exists (pathForComponent E ident)]\<rparr>))
   \<and> (fs_exists E (pathForComponent E ident) (world s) = (Inr True, w1)
      \<and> fs_exists E (pathForComponent E ident @ ''/'' @ relativePath) w1 = (Inr False, w2) \<longrightarrow>
      getFile E ident relativePath s =
        (Inr None, s\<lparr>world := w2,
           calls := calls s @ [Call_exists (pathForComponent E ident),
             Call_exists (pathForComponent E ident @ ''/'' @ relativePath)]\<rparr>))
   \<and> (fs_exists E (pathForComponent E ident) (world s) = (Inr True, w1)
      \<and> fs_exists E (pathForComponent E ident @ ''/'' @ ''package.json'') w1 = (Inr False, w2) \<longrightarrow>
      getDownloadedComponentPackageJsonFile E ident s =
        (Inr None, s\<lparr>world := w2,
           calls := calls s @ [Call_exists (pathForComponent E ident),
             Call_exists (pathForComponent E ident @ ''/'' @ ''package.json'')]\<rparr>))"
proof (intro conjI impI)
  assume a: "fs_exists E (pathForComponent E ident) (world s) = (Inr False, w1)"
  show "getFile E ident relativePath s =
        (Inr None, s\<lparr>world := w1, calls := calls s @ [Call_exists (pathForComponent E ident)]\<rparr>)"
    using a by (rule getFile_no_directory)
  show "getDownloadedComponentPackageJsonFile E ident s =
        (Inr None, s\<lparr>world := w1, calls := calls s @ [Call_exists (pathForComponent E ident)]\<rparr>)"
    by (rule manifest_of_no_file) (rule getFile_no_directory [OF a])
next
  assume "fs_exists E (pathForComponent E ident) (world s) = (Inr True, w1)
      \<and> fs_exists E (pathForComponent E ident @ ''/'' @ relativePath) w1 = (Inr False, w2)"
  then have h1: "fs_exists E (pathForComponent E ident) (world s) = (Inr True, w1)"
    and h2: "fs_exists E (pathForComponent E ident @ ''/'' @ relativePath) w1 = (Inr False, w2)"
    by blast+
  from h1 h2 show "getFile E ident relativePath s =
        (Inr None, s\<lparr>world := w2,
           calls := calls s @ [Call_exists (pathForComponent E ident),
             Call_exists (pathForComponent E ident @ ''/'' @ relativePath)]\<rparr>)"
    by (rule getFile_no_file)
next
  assume "fs_exists E (pathForComponent E ident) (world s) = (Inr True, w1)
      \<and> fs_exists E (pathForComponent E ident @ ''/'' @ ''package.json'') w1 = (Inr False, w2)"
  then have h1: "fs_exists E (pathForComponent E ident) (world s) = (Inr True, w1)"
    and h2: "fs_exists E (pathForComponent E ident @ ''/'' @ ''package.json'') w1 = (Inr False, w2)"
    by blast+
  show "getDownloadedComponentPackageJsonFile E ident s =
        (Inr None, s\<lparr>world := w2,
           calls := calls s @ [Call_exists (pathForComponent E ident),
             Call_exists (pathForComponent E ident @ ''/'' @ ''package.json'')]\<rparr>)"
    by (rule manifest_of_no_file) (rule getFile_no_file [OF h1 h2])
qed

theorem getFile_undefined_when_missing_witness:
  "fs_exists demo_env (pathForComponent demo_env ''com.example.editor'') fresh_device
     = (Inr False, fresh_device)
   \<and> fst (getFile demo_env ''com.example.editor'' ''index.html'' (demo_manager fresh_device))
       = Inr None
   \<and> fst (getDownloadedComponentPackageJsonFile demo_env ''com.example.editor''
            (demo_manager fresh_device)) = Inr None
   \<and> fs_exists demo_env (pathForComponent demo_env ''com.example.editor'') bare_install_device
       = (Inr True, bare_install_device)
   \<and> fs_exists demo_env (pathForComponent demo_env ''com.example.editor'' @ ''/'' @ ''package.json'')
         bare_install_device = (Inr False, bare_install_device)
   \<and> fst (getFile demo_env ''com.example.editor'' ''package.json''
            (demo_manager bare_install_device)) = Inr None
   \<and> fst (getDownloadedComponentPackageJsonFile demo_env ''com.example.editor''
            (demo_manager bare_install_device)) = Inr None"
proof -
  have a: "fs_exists demo_env (pathForComponent demo_env ''com.example.editor'')
        (world (demo_manager fresh_device)) = (Inr False, fresh_device)"
    by code_simp
  have b: "fs_exists demo_env (pathForComponent demo_env ''com.example.editor'')
        (world (demo_manager bare_install_device)) = (Inr True, bare_install_device)"
    by code_simp
  have c: "fs_exists demo_env (pathForComponent demo_env ''com.example.editor'' @ ''/'' @ ''package.json'')
         bare_install_device = (Inr False, bare_install_device)"
    by code_simp
  have w: "world (demo_manager t) = t" for t by (simp add: demo_manager_def)
  from getFile_undefined_when_missing
         [of demo_env "''com.example.editor''" "demo_manager fresh_device" fresh_device
            "''index.html''" fresh_device] a
  have 1: "fst (getFile demo_env ''com.example.editor'' ''index.html'' (demo_manager fresh_device))
       = Inr None"
    "fst (getDownloadedComponentPackageJsonFile demo_env ''com.example.editor''
            (demo_manager fresh_device)) = Inr None"
    by simp_all
  from getFile_undefined_when_missing
         [of demo_env "''com.example.editor''" "demo_manager bare_install_device"
            bare_install_device "''package.json''" bare_install_device] b c
  have 2: "fst (getFile demo_env ''com.example.editor'' ''package.json''
            (demo_manager bare_install_device)) = Inr None"
    "fst (getDownloadedComponentPackageJsonFile demo_env ''com.example.editor''
            (demo_manager bare_install_device)) = Inr None"
    by simp_all
  from 1 2 a b c show ?thesis by (simp add: w)
qed

section \<open>The common actions of a trashed note\<close>

text \<open>
  Claim C9, as it is written, leaves a trashed note with the actions \<open>Restore\<close> and
  \<open>Delete permanently\<close> alone. \<open>commonSection\<close> puts the trash actions after the five
  other actions of a note that is not protected, whatever \<open>trashed\<close> is.
\<close>

theorem trashed_note_keeps_other_actions:
  "trashed trashed_note \<and> \<not> protected trashed_note
   \<and> map action_text (actions (commonSection trashed_note))
       = [''Pin to top'', ''Archive'', ''Lock'', ''Protect'', ''Share'', ''Restore'',
          ''Delete permanently'']
   \<and> map action_key (actions (commonSection trashed_note))
       \<noteq> [Restore, DeletePermanently]"
  by code_simp


text \<open>
  Claim C9, amended. For every note that is trashed and not protected, the common
  actions are, in this order, pin, archive, lock, protect, share, \<open>Restore\<close> and
  \<open>Delete permanently\<close>: the last two stand where \<open>Move to Trash\<close> would, and that action
  is absent.
\<close>

theorem trashed_note_common_actions:
  assumes "trashed note" and "\<not> protected note"
  shows "map action_key (actions (commonSection note))
           = [Pin, Archive, Lock, Protect, ShareAction, Restore, DeletePermanently]
         \<and> map action_text (drop 5 (actions (commonSection note)))
           = [''Restore'', ''Delete permanently'']
         \<and> moveToTrashAction \<notin> set (actions (commonSection note))
         \<and> section_key (commonSection note) = CommonActions"
  using assms
  by (simp add: commonSection_def Let_def pinAction_def archiveAction_def lockAction_def
      protectAction_def shareAction_def restoreAction_def deleteAction_def moveToTrashAction_def)

theorem trashed_note_common_actions_witness:
  "trashed trashed_note \<and> \<not> protected trashed_note
   \<and> map action_key (actions (commonSection trashed_note))
       = [Pin, Archive, Lock, Protect, ShareAction, Restore, DeletePermanently]
   \<and> map action_text (drop 5 (actions (commonSection trashed_note)))
       = [''Restore'', ''Delete permanently'']"
proof -
  have t: "trashed trashed_note" and p: "\<not> protected trashed_note"
    by (simp_all add: trashed_note_def)
  from trashed_note_common_actions [OF t p] t p show ?thesis by blast
qed

section \<open>The URL of a system theme\<close>

text \<open>
  Claim C6. For every theme component flagged as a system theme, \<open>urlForComponent\<close>
  returns \<open>data:text/css;base64,\<close> followed by a payload, the same in every state of the
  manager: the URL of the local server, the cache of index paths and the device have no
  part in it, and no call of the gateway is made. For every decoder that inverts
  \<open>Base64.encodeURI\<close>, decoding the payload gives the stylesheet text that \<open>objectToCss\<close>
  makes of the variables of the theme.
\<close>

theorem system_theme_data_url:
  assumes "isTheme component" and "isSystemTheme component"
    and "\<forall>t. decode (Base64_encodeURI E t) = t"
  shows "\<exists>payload.
           (\<forall>s. urlForComponent E component s =
                  (Inr (Some (''data:text/css;base64,'' @ payload)), s))
           \<and> decode payload = objectToCss E (variables component)"
proof -
  have "\<forall>s. urlForComponent E component s =
      (Inr (Some (''data:text/css;base64,''
                  @ Base64_encodeURI E (objectToCss E (variables component)))), s)"
    using assms(1,2) by (simp add: urlForComponent_def Let_def ret_def)
  moreover have "decode (Base64_encodeURI E (objectToCss E (variables component)))
      = objectToCss E (variables component)"
    using assms(3) by simp
  ultimately show ?thesis by blast
qed

theorem system_theme_data_url_witness:
  "isTheme demo_theme \<and> isSystemTheme demo_theme
   \<and> base64url_decode (Base64_encodeURI demo_env ''--bg:#000;'') = ''--bg:#000;''
   \<and> objectToCss demo_env (variables demo_theme) = ''--bg:#000;''
   \<and> fst (urlForComponent demo_env demo_theme (demo_manager fresh_device))
       = Inr (Some ''data:text/css;base64,LS1iZzojMDAwOw'')
   \<and> (\<exists>payload.
         (\<forall>s. urlForComponent demo_env demo_theme s =
                (Inr (Some (''data:text/css;base64,'' @ payload)), s))
         \<and> base64url_decode payload = objectToCss demo_env (variables demo_theme))"
proof -
  have t: "isTheme demo_theme" and y: "isSystemTheme demo_theme"
    by (simp_all add: demo_theme_def)
  have enc: "Base64_encodeURI demo_env = base64url_encode"
    by (simp add: demo_env_def demo_services_def)
  have rt: "\<forall>t. base64url_decode (Base64_encodeURI demo_env t) = t"
    by (simp add: enc base64url_roundtrip)
  have css: "objectToCss demo_env (variables demo_theme) = ''--bg:#000;''"
    by code_simp
  have url: "fst (urlForComponent demo_env demo_theme (demo_manager fresh_device))
       = Inr (Some ''data:text/css;base64,LS1iZzojMDAwOw'')"
    by code_simp
  from system_theme_data_url [OF t y rt] t y rt css url
  show ?thesis by blast
qed

section \<open>A download that is not answered with 2xx\<close>

text \<open>
  Claim C4, as it is written, has every status code outside 200 to 299 answered with
  \<open>FailedDownload\<close>. Line 231 tests the first character of the decimal text of the status
  code, \<open>String(result.statusCode).startsWith('2')\<close>. A transport that reports the status
  code 2000, which is outside 200 to 299, has its archive extracted and installed, and
  the result is success.
\<close>

theorem status_2000_is_extracted:
  "\<not> (200 \<le> (2000::int) \<and> (2000::int) \<le> 299)
   \<and> fs_downloadFile odd_status_env ''https://example.com/editor.zip''
         ''/docs/com.example.editor.zip'' fresh_device
       = (Inr 2000, Dir [(''docs'', Dir [(''com.example.editor.zip'', File ''archive'')])])
   \<and> String_number 2000 = ''2000''
   \<and> fst (downloadComponentOffline odd_status_env demo_component (demo_manager fresh_device))
       = Inr None
   \<and> calls (snd (downloadComponentOffline odd_status_env demo_component
                     (demo_manager fresh_device)))
       = [Call_exists ''/docs/com.example.editor.zip'',
          Call_downloadFile ''https://example.com/editor.zip'' ''/docs/com.example.editor.zip'',
          Call_unzip ''/docs/com.example.editor.zip'' ''/docs/components/com.example.editor'',
          Call_readDir ''/docs/components/com.example.editor'',
          Call_unlink ''/docs/com.example.editor.zip'',
          Call_exists ''/docs/components/com.example.editor'']
   \<and> node_at (world (snd (downloadComponentOffline odd_status_env demo_component
                              (demo_manager fresh_device))))
         [''docs'', ''components'', ''com.example.editor'']
       = Some (Dir [(''package.json'', File ''1.3.0''), (''index.html'', File ''page'')])"
  by code_simp


text \<open>
  Claim C4, amended. When the stale archive, if any, was removed and the transport
  answers with a status code whose decimal text does not begin with the digit 2,
  \<open>downloadComponentOffline\<close> returns \<open>FailedDownload\<close>, and its only calls are the existence
  test of the temporary archive, the removal of a stale one and the download itself: it
  does not read the archive back, digest it, extract it or move anything, and the device
  is left as the download left it. Among the status codes of three digits, those that do
  not begin with 2 are exactly those outside 200 to 299; no status code below 2, zero and
  the negative ones included, begins with 2.
\<close>

theorem no_leading_2_is_FailedDownload:
  assumes url: "js_or (Option.bind (nativeFeatureForIdentifier E (comp_identifier component)) fd_download_url)
                  (Option.bind (package_info component) pi_download_url) = Some downloadUrl"
      "downloadUrl \<noteq> []"
    and tmp: "tmpLocation = BASE_DOCUMENTS_PATH E @ ''/'' @ comp_identifier component @ ''.zip''"
    and ex: "fs_exists E tmpLocation (world s) = (Inr stale, w1)"
    and ul: "if stale then fs_unlink E tmpLocation w1 = (Inr (), w2) else w2 = w1"
    and dl: "fs_downloadFile E downloadUrl tmpLocation w2 = (Inr statusCode, w3)"
    and st: "\<not> startsWith (String_number statusCode) ''2''"
  shows "downloadComponentOffline E component s =
           (Inr (Some FailedDownload),
            s\<lparr>world := w3,
               calls := calls s @ Call_exists tmpLocation
                 # (if stale then [Call_unlink tmpLocation] else [])
                 @ [Call_downloadFile downloadUrl tmpLocation]\<rparr>)
         \<and> (\<forall>n. 100 \<le> n \<and> n \<le> 999 \<longrightarrow>
                startsWith (String_number n) ''2'' = (200 \<le> n \<and> n \<le> 299))
         \<and> (\<forall>n. n < 2 \<longrightarrow> \<not> startsWith (String_number n) ''2'')"
proof -
  note no2 = st
  have perform: "performDownloadComponent E (comp_identifier component) downloadUrl s =
           (Inr (Some FailedDownload),
            s\<lparr>world := w3,
               calls := calls s @ Call_exists tmpLocation
                 # (if stale then [Call_unlink tmpLocation] else [])
                 @ [Call_downloadFile downloadUrl tmpLocation]\<rparr>)"
  proof (cases stale)
    case True
    with ul have "fs_unlink E tmpLocation w1 = (Inr (), w2)" by simp
    with True ex dl no2 show ?thesis
      unfolding tmp by (simp add: performDownloadComponent_def Let_def monad_defs rnfs_defs)
  next
    case False
    with ul have "w2 = w1" by simp
    with False ex dl no2 show ?thesis
      unfolding tmp by (simp add: performDownloadComponent_def Let_def monad_defs rnfs_defs)
  qed
  have "downloadComponentOffline E component s =
           (Inr (Some FailedDownload),
            s\<lparr>world := w3,
               calls := calls s @ Call_exists tmpLocation
                 # (if stale then [Call_unlink tmpLocation] else [])
                 @ [Call_downloadFile downloadUrl tmpLocation]\<rparr>)"
    using url perform
    by (simp add: downloadComponentOffline_def Let_def monad_defs)
  then show ?thesis
    by (simp add: status_starts_with_2 status_below_2)
qed



theorem no_leading_2_is_FailedDownload_witness:
  "\<not> startsWith (String_number 404) ''2''
   \<and> fs_downloadFile not_found_env ''https://example.com/editor.zip''
       ''/docs/com.example.editor.zip'' fresh_device
     = (Inr 404, Dir [(''docs'', Dir [(''com.example.editor.zip'', File ''not found'')])])
   \<and> downloadComponentOffline not_found_env demo_component (demo_manager fresh_device) =
       (Inr (Some FailedDownload),
        (demo_manager fresh_device)
          \<lparr>world := Dir [(''docs'', Dir [(''com.example.editor.zip'', File ''not found'')])],
           calls := calls (demo_manager fresh_device)
             @ Call_exists ''/docs/com.example.editor.zip''
             # (if False then [Call_unlink ''/docs/com.example.editor.zip''] else [])
             @ [Call_downloadFile ''https://example.com/editor.zip''
                  ''/docs/com.example.editor.zip'']\<rparr>)"
proof -
  have url: "js_or (Option.bind (nativeFeatureForIdentifier not_found_env
                 (comp_identifier demo_component)) fd_download_url)
               (Option.bind (package_info demo_component) pi_download_url)
             = Some ''https://example.com/editor.zip''"
    by code_simp
  have ne: "''https://example.com/editor.zip'' \<noteq> []" by simp
  have tmp: "''/docs/com.example.editor.zip''
      = BASE_DOCUMENTS_PATH not_found_env @ ''/'' @ comp_identifier demo_component @ ''.zip''"
    by code_simp
  have ex: "fs_exists not_found_env ''/docs/com.example.editor.zip''
       (world (demo_manager fresh_device)) = (Inr False, fresh_device)"
    by code_simp
  have ul: "if False then fs_unlink not_found_env ''/docs/com.example.editor.zip'' fresh_device
              = (Inr (), fresh_device) else fresh_device = fresh_device"
    by simp
  have dl: "fs_downloadFile not_found_env ''https://example.com/editor.zip''
       ''/docs/com.example.editor.zip'' fresh_device
     = (Inr 404, Dir [(''docs'', Dir [(''com.example.editor.zip'', File ''not found'')])])"
    by code_simp
  have st: "\<not> startsWith (String_number 404) ''2''"
    by code_simp
  from no_leading_2_is_FailedDownload [OF url ne tmp ex ul dl st] dl st
  show ?thesis by blast
qed

section \<open>The index path of a third-party component\<close>





section \<open>Whether a component needs a download\<close>



section \<open>The layout of the install directory\<close>







end
